theory Spec2Isabelle
  imports Complex_Main
begin

section \<open>Data model of \<^verbatim>\<open>src/App.tsx\<close>\<close>

text \<open>
  The layout logic of the window tiler lives in the \<^verbatim>\<open>App\<close> component: the panel list
  \<^verbatim>\<open>windows\<close>, the snap preview \<^verbatim>\<open>snapIndicator\<close> and the two refs
  \<^verbatim>\<open>draggedWindowId\<close> and \<^verbatim>\<open>dragStartPos\<close>.

  JavaScript numbers used as coordinates are IEEE 754 doubles; a double is modelled as
  the real number it denotes (infinities, NaN and the sign of zero are left out). Halving a
  double is exact above the subnormal range (lemma \<open>fl_half\<close> below), so
  \<^verbatim>\<open>x / 2\<close> is written as the real quotient. A sum of two doubles is the double
  nearest to the real sum. The sum that places the second half of a split in
  \<^verbatim>\<open>handleDrop\<close> decides whether the two halves tile the old rectangle, and is rounded
  with \<open>fl\<close> as the code rounds it. The other sums of the code (the translation of
  \<^verbatim>\<open>handleDrag\<close>, the edge tests, the extents added by \<^verbatim>\<open>unsnapWindow\<close>) are
  written as real sums: this moves a translated position or the boundary of an edge test
  by at most one unit in the last place, and changes nothing on the concrete states
  below. Panel ids are integers (\<^verbatim>\<open>Date.now()\<close>). A field that is \<^verbatim>\<open>number | null\<close> or optional is an
  \<open>option\<close>. The fields \<^verbatim>\<open>id\<close>, \<^verbatim>\<open>top\<close> and \<^verbatim>\<open>show\<close> carry a suffix, since
  these names are taken in HOL; the preview's geometry fields carry the suffix \<open>_i\<close> to
  keep them apart from the panel's.
\<close>

datatype SnapSide = SnapLeft | SnapRight | SnapTop | SnapBottom

record WindowData =
  id_w :: int
  color :: string
  top_w :: real
  left :: real
  width :: real
  height :: real
  isSnapped :: bool
  parent :: "int option"

text \<open>The preview's geometry is \<^verbatim>\<open>number | string\<close>: a pixel value or a CSS length.\<close>

datatype CssLen = Num real | Str string

record SnapIndicatorState =
  show_i :: bool
  side :: "SnapSide option"
  target :: "int option"
  top_i :: CssLen
  left_i :: CssLen
  width_i :: CssLen
  height_i :: CssLen

record Position =
  px :: real
  py :: real

text \<open>What the handlers read of a \<^verbatim>\<open>DragEvent\<close>.\<close>

record DragEvent =
  clientX :: real
  clientY :: real

text \<open>What the handlers read of the global \<^verbatim>\<open>window\<close> object.\<close>

record Viewport =
  innerWidth :: real
  innerHeight :: real

record AppState =
  windows :: "WindowData list"
  snapIndicator :: SnapIndicatorState
  draggedWindowId :: "int option"
  dragStartPos :: "Position option"

subsection \<open>Rounding to the nearest double\<close>

text \<open>
  The value of \<^verbatim>\<open>x + y\<close> on doubles is the double nearest to the real sum, ties to the
  even mantissa. With \<open>e\<close> the binary exponent of a real \<open>x\<close>, and at least \<open>-1022\<close>, where
  the subnormal range starts, the doubles around \<open>x\<close> are the multiples of
  \<open>u = 2 ^ (e - 52)\<close>, and \<open>fl x\<close> is the multiple of \<open>u\<close> nearest to \<open>x\<close>. A sum of
  magnitude \<open>2 ^ 1024\<close> or more is \<^verbatim>\<open>Infinity\<close> in the code and outside the model.
\<close>

definition roundEven :: "real \<Rightarrow> int" where
  "roundEven x =
     (let f = \<lfloor>x\<rfloor>
      in if x - of_int f < 1 / 2 then f
         else if x - of_int f > 1 / 2 then f + 1
         else if even f then f else f + 1)"

definition pow2 :: "int \<Rightarrow> real" where
  "pow2 k = (if 0 \<le> k then 2 ^ nat k else 1 / 2 ^ nat (- k))"

text \<open>The binary exponent of a positive real, computed by halving and doubling: it is the
  floor of the logarithm to base 2 (lemma \<open>expo_floor_log\<close>).\<close>

function expo :: "real \<Rightarrow> int" where
  "expo x =
     (if x \<le> 0 then 0
      else if 2 \<le> x then expo (x / 2) + 1
      else if x < 1 then expo (2 * x) - 1
      else 0)"
  by pat_completeness auto
termination
proof (relation "measure (\<lambda>x. nat \<bar>\<lfloor>log 2 x\<rfloor>\<bar>)")
  show "wf (measure (\<lambda>x. nat \<bar>\<lfloor>log 2 x\<rfloor>\<bar>))" by simp
next
  fix x :: real
  assume "\<not> x \<le> 0" and "2 \<le> x"
  then have "log 2 (x / 2) = log 2 x - 1" and "1 \<le> log 2 x"
    by (simp_all add: log_divide le_log_iff)
  then have "\<lfloor>log 2 (x / 2)\<rfloor> = \<lfloor>log 2 x\<rfloor> - 1" and "1 \<le> \<lfloor>log 2 x\<rfloor>"
    by (simp_all add: le_floor_iff)
  then have "nat \<bar>\<lfloor>log 2 (x / 2)\<rfloor>\<bar> < nat \<bar>\<lfloor>log 2 x\<rfloor>\<bar>"
    by linarith
  then show "(x / 2, x) \<in> measure (\<lambda>x. nat \<bar>\<lfloor>log 2 x\<rfloor>\<bar>)"
    by simp
next
  fix x :: real
  assume "\<not> x \<le> 0" and "\<not> 2 \<le> x" and "x < 1"
  then have "log 2 (2 * x) = log 2 x + 1" and "log 2 x < 0"
    by (simp_all add: log_mult)
  then have "\<lfloor>log 2 (2 * x)\<rfloor> = \<lfloor>log 2 x\<rfloor> + 1" and "\<lfloor>log 2 x\<rfloor> < 0"
    by (simp_all add: floor_less_iff)
  then have "nat \<bar>\<lfloor>log 2 (2 * x)\<rfloor>\<bar> < nat \<bar>\<lfloor>log 2 x\<rfloor>\<bar>"
    by linarith
  then show "(2 * x, x) \<in> measure (\<lambda>x. nat \<bar>\<lfloor>log 2 x\<rfloor>\<bar>)"
    by simp
qed

declare expo.simps [simp del]

definition fl :: "real \<Rightarrow> real" where
  "fl x =
     (if x = 0 then 0
      else
        let e = max (expo \<bar>x\<bar>) (- 1022);
            u = pow2 (e - 52)
        in of_int (roundEven (x / u)) * u)"

subsection \<open>Constants\<close>

definition SNAP_THRESHOLD :: real where
  "SNAP_THRESHOLD = 30"

definition EMPTY_INDICATOR :: SnapIndicatorState where
  "EMPTY_INDICATOR =
     \<lparr>show_i = False, side = None, target = None,
      top_i = Num 0, left_i = Num 0, width_i = Num 0, height_i = Num 0\<rparr>"

text \<open>
  JavaScript truthiness of a \<^verbatim>\<open>number | null\<close>: \<^verbatim>\<open>null\<close>, \<^verbatim>\<open>undefined\<close> and the
  number \<^verbatim>\<open>0\<close> are falsy (\<^verbatim>\<open>!win.parent\<close>, \<^verbatim>\<open>if (target)\<close>,
  \<^verbatim>\<open>!draggedWindowId.current\<close>).
\<close>

definition truthy :: "int option \<Rightarrow> bool" where
  "truthy v = (case v of None \<Rightarrow> False | Some n \<Rightarrow> n \<noteq> 0)"

section \<open>Layout store\<close>

subsection \<open>\<^verbatim>\<open>createWindow\<close> and \<^verbatim>\<open>closeWindow\<close>\<close>

text \<open>
  \<^verbatim>\<open>createWindow\<close> reads the clock, the random generator and the viewport; they are
  parameters here: \<open>now\<close> is \<^verbatim>\<open>Date.now()\<close>, \<open>col\<close> the colour string, \<open>r1\<close> and
  \<open>r2\<close> the two \<^verbatim>\<open>Math.random()\<close> values of \<^verbatim>\<open>top\<close> and \<^verbatim>\<open>left\<close>.
\<close>

definition createWindow :: "Viewport \<Rightarrow> int \<Rightarrow> string \<Rightarrow> real \<Rightarrow> real \<Rightarrow> AppState \<Rightarrow> AppState" where
  "createWindow vp now col r1 r2 s =
     s\<lparr>windows := windows s @
        [\<lparr>id_w = now, color = col,
          top_w = r1 * (innerHeight vp - 200),
          left = r2 * (innerWidth vp - 200),
          width = 300, height = 200,
          isSnapped = False, parent = None\<rparr>]\<rparr>"

subsection \<open>\<^verbatim>\<open>unsnapWindow\<close>\<close>

text \<open>The function handed to \<^verbatim>\<open>setWindows\<close> by \<^verbatim>\<open>unsnapWindow\<close> (lines 157 to 183).\<close>

definition unsnapWindow_update :: "int \<Rightarrow> WindowData list \<Rightarrow> WindowData list" where
  "unsnapWindow_update windowId cur =
     (case find (\<lambda>w. id_w w = windowId) cur of
        None \<Rightarrow> cur
      | Some win \<Rightarrow>
          if \<not> isSnapped win \<or> \<not> truthy (parent win) then cur
          else
            (case find (\<lambda>w. Some (id_w w) = parent win) cur of
               None \<Rightarrow>
                 map (\<lambda>w. if id_w w = windowId
                           then w\<lparr>isSnapped := False, parent := None\<rparr> else w) cur
             | Some sibling \<Rightarrow>
                 let updatedSibling =
                       sibling\<lparr>width := width sibling + width win,
                               height := height sibling + height win,
                               isSnapped := False, parent := None\<rparr>
                 in map (\<lambda>w. if id_w w = id_w sibling then updatedSibling
                              else if id_w w = windowId
                              then w\<lparr>isSnapped := False, parent := None\<rparr>
                              else w) cur))"

definition unsnapWindow :: "int \<Rightarrow> AppState \<Rightarrow> AppState" where
  "unsnapWindow windowId s = s\<lparr>windows := unsnapWindow_update windowId (windows s)\<rparr>"

definition closeWindow :: "int \<Rightarrow> AppState \<Rightarrow> AppState" where
  "closeWindow i s =
     (let s1 = unsnapWindow i s
      in s1\<lparr>windows := filter (\<lambda>w. id_w w \<noteq> i) (windows s1)\<rparr>)"

subsection \<open>\<^verbatim>\<open>handleDragStart\<close>\<close>

definition handleDragStart :: "DragEvent \<Rightarrow> int \<Rightarrow> AppState \<Rightarrow> AppState" where
  "handleDragStart e i s =
     unsnapWindow i
       (s\<lparr>draggedWindowId := Some i,
          dragStartPos := Some \<lparr>px = clientX e, py = clientY e\<rparr>\<rparr>)"

section \<open>Snap resolver (the second half of \<^verbatim>\<open>handleDrag\<close>)\<close>

definition inside :: "real \<Rightarrow> real \<Rightarrow> WindowData \<Rightarrow> bool" where
  "inside cx cy w =
     (cx > left w \<and> cx < left w + width w \<and> cy > top_w w \<and> cy < top_w w + height w)"

text \<open>The chain of edge tests on the panel under the pointer (lines 234 to 274).\<close>

definition windowEdgeIndicator :: "real \<Rightarrow> real \<Rightarrow> WindowData \<Rightarrow> SnapIndicatorState \<Rightarrow> SnapIndicatorState" where
  "windowEdgeIndicator cx cy w indicator =
     (if cx < left w + SNAP_THRESHOLD then
        \<lparr>show_i = True, side = Some SnapLeft, target = Some (id_w w),
         top_i = Num (top_w w), left_i = Num (left w),
         width_i = Num (width w / 2), height_i = Num (height w)\<rparr>
      else if cx > left w + width w - SNAP_THRESHOLD then
        \<lparr>show_i = True, side = Some SnapRight, target = Some (id_w w),
         top_i = Num (top_w w), left_i = Num (left w + width w / 2),
         width_i = Num (width w / 2), height_i = Num (height w)\<rparr>
      else if cy < top_w w + SNAP_THRESHOLD then
        \<lparr>show_i = True, side = Some SnapTop, target = Some (id_w w),
         top_i = Num (top_w w), left_i = Num (left w),
         width_i = Num (width w), height_i = Num (height w / 2)\<rparr>
      else if cy > top_w w + height w - SNAP_THRESHOLD then
        \<lparr>show_i = True, side = Some SnapBottom, target = Some (id_w w),
         top_i = Num (top_w w + height w / 2), left_i = Num (left w),
         width_i = Num (width w), height_i = Num (height w / 2)\<rparr>
      else indicator)"

text \<open>
  The loop over \<^verbatim>\<open>windows\<close> (lines 225 to 276): it skips the dragged panel and the
  panels that do not contain the pointer, and stops (\<^verbatim>\<open>break\<close>) at the first panel that
  does, whether or not one of its edges matched.
\<close>

fun windowScan :: "real \<Rightarrow> real \<Rightarrow> int \<Rightarrow> WindowData list \<Rightarrow> SnapIndicatorState \<Rightarrow> SnapIndicatorState" where
  "windowScan cx cy i [] indicator = indicator"
| "windowScan cx cy i (w # ws) indicator =
     (if id_w w = i then windowScan cx cy i ws indicator
      else if \<not> inside cx cy w then windowScan cx cy i ws indicator
      else windowEdgeIndicator cx cy w indicator)"

text \<open>The screen-edge tests (lines 279 to 315).\<close>

definition screenEdgeIndicator :: "Viewport \<Rightarrow> real \<Rightarrow> real \<Rightarrow> SnapIndicatorState \<Rightarrow> SnapIndicatorState" where
  "screenEdgeIndicator vp cx cy indicator =
     (if cx < SNAP_THRESHOLD then
        \<lparr>show_i = True, side = Some SnapLeft, target = None,
         top_i = Num 0, left_i = Num 0, width_i = Str ''50vw'', height_i = Str ''100vh''\<rparr>
      else if cx > innerWidth vp - SNAP_THRESHOLD then
        \<lparr>show_i = True, side = Some SnapRight, target = None,
         top_i = Num 0, left_i = Str ''50vw'', width_i = Str ''50vw'', height_i = Str ''100vh''\<rparr>
      else if cy < SNAP_THRESHOLD then
        \<lparr>show_i = True, side = Some SnapTop, target = None,
         top_i = Num 0, left_i = Num 0, width_i = Str ''100vw'', height_i = Str ''50vh''\<rparr>
      else if cy > innerHeight vp - SNAP_THRESHOLD then
        \<lparr>show_i = True, side = Some SnapBottom, target = None,
         top_i = Str ''50vh'', left_i = Num 0, width_i = Str ''100vw'', height_i = Str ''50vh''\<rparr>
      else indicator)"

text \<open>
  The decision \<^verbatim>\<open>handleDrag\<close> publishes for pointer \<open>(cx, cy)\<close>, dragged id \<open>i\<close> and
  panel list \<open>ws\<close> (lines 222 to 316).
\<close>

definition resolve :: "Viewport \<Rightarrow> real \<Rightarrow> real \<Rightarrow> int \<Rightarrow> WindowData list \<Rightarrow> SnapIndicatorState" where
  "resolve vp cx cy i ws =
     (let indicator = windowScan cx cy i ws EMPTY_INDICATOR
      in if \<not> show_i indicator then screenEdgeIndicator vp cx cy indicator else indicator)"

subsection \<open>\<^verbatim>\<open>handleDrag\<close>\<close>

text \<open>
  The resolver reads \<^verbatim>\<open>windows\<close>, the list of the render the handler was made in, so
  the list before the translation queued just above it.
\<close>

definition handleDrag :: "Viewport \<Rightarrow> DragEvent \<Rightarrow> int \<Rightarrow> AppState \<Rightarrow> AppState" where
  "handleDrag vp e i s =
     (if draggedWindowId s \<noteq> Some i then s
      else
        (case dragStartPos s of
           None \<Rightarrow> s
         | Some p \<Rightarrow>
             if clientX e = 0 then s
             else
               let dx = clientX e - px p;
                   dy = clientY e - py p
               in s\<lparr>dragStartPos := Some \<lparr>px = clientX e, py = clientY e\<rparr>,
                     windows :=
                       map (\<lambda>w. if id_w w = i
                                 then w\<lparr>left := left w + dx, top_w := top_w w + dy\<rparr>
                                 else w) (windows s),
                     snapIndicator := resolve vp (clientX e) (clientY e) i (windows s)\<rparr>))"

section \<open>\<^verbatim>\<open>handleDrop\<close>\<close>

text \<open>
  The \<^verbatim>\<open>updates\<close> record of a split, keyed by panel id (lines 337 to 390). The
  sums \<^verbatim>\<open>t.left + halfW\<close> and \<^verbatim>\<open>t.top + halfH\<close> are sums of doubles, so rounded.
\<close>

definition splitUpdates :: "SnapSide \<Rightarrow> int \<Rightarrow> WindowData \<Rightarrow> int \<Rightarrow> WindowData \<Rightarrow> (int \<rightharpoonup> WindowData)" where
  "splitUpdates sd tgt t draggedId dragged =
     (let halfW = width t / 2;
          halfH = height t / 2
      in case sd of
           SnapLeft \<Rightarrow>
             [tgt \<mapsto> t\<lparr>left := fl (left t + halfW), width := halfW\<rparr>,
              draggedId \<mapsto> dragged\<lparr>isSnapped := True, parent := Some tgt,
                 top_w := top_w t, left := left t, width := halfW, height := height t\<rparr>]
         | SnapRight \<Rightarrow>
             [tgt \<mapsto> t\<lparr>width := halfW\<rparr>,
              draggedId \<mapsto> dragged\<lparr>isSnapped := True, parent := Some tgt,
                 top_w := top_w t, left := fl (left t + halfW), width := halfW, height := height t\<rparr>]
         | SnapTop \<Rightarrow>
             [tgt \<mapsto> t\<lparr>top_w := fl (top_w t + halfH), height := halfH\<rparr>,
              draggedId \<mapsto> dragged\<lparr>isSnapped := True, parent := Some tgt,
                 top_w := top_w t, left := left t, width := width t, height := halfH\<rparr>]
         | SnapBottom \<Rightarrow>
             [tgt \<mapsto> t\<lparr>height := halfH\<rparr>,
              draggedId \<mapsto> dragged\<lparr>isSnapped := True, parent := Some tgt,
                 top_w := fl (top_w t + halfH), left := left t, width := width t, height := halfH\<rparr>])"

text \<open>The screen-half geometry \<^verbatim>\<open>snapMap[side]\<close> spread over a panel (lines 394 to 405).\<close>

definition snapMap :: "Viewport \<Rightarrow> SnapSide \<Rightarrow> WindowData \<Rightarrow> WindowData" where
  "snapMap vp sd w =
     (let fullW = innerWidth vp;
          fullH = innerHeight vp
      in case sd of
           SnapLeft \<Rightarrow> w\<lparr>top_w := 0, left := 0, width := fullW / 2, height := fullH\<rparr>
         | SnapRight \<Rightarrow> w\<lparr>top_w := 0, left := fullW / 2, width := fullW / 2, height := fullH\<rparr>
         | SnapTop \<Rightarrow> w\<lparr>top_w := 0, left := 0, width := fullW, height := fullH / 2\<rparr>
         | SnapBottom \<Rightarrow> w\<lparr>top_w := fullH / 2, left := 0, width := fullW, height := fullH / 2\<rparr>)"

definition screenSnap :: "Viewport \<Rightarrow> int \<Rightarrow> SnapSide \<Rightarrow> WindowData list \<Rightarrow> WindowData list" where
  "screenSnap vp draggedId sd cur =
     map (\<lambda>w. if id_w w = draggedId
               then snapMap vp sd (w\<lparr>isSnapped := True, parent := None\<rparr>)
               else w) cur"

text \<open>The function handed to \<^verbatim>\<open>setWindows\<close> by \<^verbatim>\<open>handleDrop\<close> (lines 329 to 408).\<close>

definition handleDrop_update :: "Viewport \<Rightarrow> int \<Rightarrow> SnapSide option \<Rightarrow> int option \<Rightarrow> WindowData list \<Rightarrow> WindowData list" where
  "handleDrop_update vp draggedId sdo tgo cur =
     (case find (\<lambda>w. id_w w = draggedId) cur of
        None \<Rightarrow> cur
      | Some dragged \<Rightarrow>
          (case sdo of
             None \<Rightarrow> cur
           | Some sd \<Rightarrow>
               (case tgo of
                  None \<Rightarrow> screenSnap vp draggedId sd cur
                | Some tgt \<Rightarrow>
                    if tgt = 0 then screenSnap vp draggedId sd cur
                    else
                      (case find (\<lambda>w. id_w w = tgt) cur of
                         None \<Rightarrow> cur
                       | Some t \<Rightarrow>
                           let updates = splitUpdates sd tgt t draggedId dragged
                           in map (\<lambda>w. case updates (id_w w) of
                                          None \<Rightarrow> w
                                        | Some u \<Rightarrow> u) cur))))"

definition handleDrop :: "Viewport \<Rightarrow> AppState \<Rightarrow> AppState" where
  "handleDrop vp s =
     (if \<not> show_i (snapIndicator s) \<or> \<not> truthy (draggedWindowId s) then s
      else
        (case draggedWindowId s of
           None \<Rightarrow> s
         | Some draggedId \<Rightarrow>
             s\<lparr>windows :=
                 handleDrop_update vp draggedId
                   (side (snapIndicator s)) (target (snapIndicator s)) (windows s),
               draggedWindowId := None,
               dragStartPos := None,
               snapIndicator := EMPTY_INDICATOR\<rparr>))"

section \<open>Notions the properties are stated with\<close>


text \<open>The panel the loop of \<^verbatim>\<open>handleDrag\<close> stops at: the first one, in list order, that is
  not the dragged one and contains the pointer.\<close>

definition firstUnder :: "real \<Rightarrow> real \<Rightarrow> int \<Rightarrow> WindowData list \<Rightarrow> WindowData option" where
  "firstUnder cx cy i ws = find (\<lambda>w. id_w w \<noteq> i \<and> inside cx cy w) ws"

text \<open>The pointer is within the threshold of one of the four edges of a panel: the
  disjunction of the four tests of lines 234, 244, 254 and 264.\<close>

definition nearEdge :: "real \<Rightarrow> real \<Rightarrow> WindowData \<Rightarrow> bool" where
  "nearEdge cx cy w =
     (cx < left w + SNAP_THRESHOLD \<or> cx > left w + width w - SNAP_THRESHOLD \<or>
      cy < top_w w + SNAP_THRESHOLD \<or> cy > top_w w + height w - SNAP_THRESHOLD)"


section \<open>Concrete panels and states\<close>

definition panelA :: WindowData where
  "panelA = \<lparr>id_w = 1, color = ''rgb(10,20,30)'', top_w = 400, left = 500,
             width = 300, height = 200, isSnapped = False, parent = None\<rparr>"

definition panelB :: WindowData where
  "panelB = \<lparr>id_w = 2, color = ''rgb(40,50,60)'', top_w = 0, left = 0,
             width = 300, height = 200, isSnapped = False, parent = None\<rparr>"

text \<open>A panel that was dragged partly off the left edge of the screen.\<close>

definition panelWide :: WindowData where
  "panelWide = \<lparr>id_w = 3, color = ''rgb(70,80,90)'', top_w = 0, left = -100,
             width = 400, height = 400, isSnapped = False, parent = None\<rparr>"





definition viewport1200 :: Viewport where
  "viewport1200 = \<lparr>innerWidth = 1200, innerHeight = 800\<rparr>"

text \<open>Panel 1 is being dragged, picked up at \<open>(600, 410)\<close>.\<close>

definition dragging :: "WindowData list \<Rightarrow> SnapIndicatorState \<Rightarrow> AppState" where
  "dragging ws ind =
     \<lparr>windows = ws, snapIndicator = ind, draggedWindowId = Some 1,
      dragStartPos = Some \<lparr>px = 600, py = 410\<rparr>\<rparr>"

text \<open>No drag in progress.\<close>

definition idle :: "WindowData list \<Rightarrow> AppState" where
  "idle ws =
     \<lparr>windows = ws, snapIndicator = EMPTY_INDICATOR, draggedWindowId = None,
      dragStartPos = None\<rparr>"

section \<open>Facts about rounding\<close>

lemma expo_floor_log: "0 < x \<Longrightarrow> expo x = \<lfloor>log 2 x\<rfloor>"
proof (induction x rule: expo.induct)
  case (1 x)
  show ?case
  proof (cases "2 \<le> x")
    case True
    then have "log 2 (x / 2) = log 2 x - 1"
      by (simp add: log_divide)
    with 1 True show ?thesis
      by (subst expo.simps) simp
  next
    case False
    show ?thesis
    proof (cases "x < 1")
      case True
      with 1(3) have "log 2 (2 * x) = log 2 x + 1"
        by (simp add: log_mult)
      with 1 True False show ?thesis
        by (subst expo.simps) simp
    next
      case F2: False
      with False 1(3) have "0 \<le> log 2 x" "log 2 x < 1"
        by (simp_all add: less_log_iff log_less_iff)
      then have "\<lfloor>log 2 x\<rfloor> = 0" by linarith
      with F2 False 1(3) show ?thesis
        by (subst expo.simps) simp
    qed
  qed
qed

lemma pow2_powr: "pow2 k = 2 powr (of_int k)"
  by (simp add: pow2_def powr_int)

lemma pow2_pred: "pow2 (k - 1) = pow2 k / 2"
  by (simp add: pow2_powr powr_diff)

text \<open>
  Halving commutes with rounding above the subnormal range: the half of a double (a fixed
  point of \<open>fl\<close>) of magnitude \<open>2 ^ -1021\<close> or more is a double.
\<close>

lemma fl_half:
  assumes "2 powr (- 1021) \<le> \<bar>x\<bar>"
  shows "fl (x / 2) = fl x / 2"
proof -
  have pos: "0 < \<bar>x\<bar>"
    using assms by (smt (verit) powr_gt_zero)
  then have x: "x \<noteq> 0" by simp
  have "- 1021 \<le> log 2 \<bar>x\<bar>"
    using assms pos by (simp add: le_log_iff)
  then have lo: "- 1021 \<le> \<lfloor>log 2 \<bar>x\<bar>\<rfloor>"
    by (simp add: le_floor_iff)
  have e: "expo \<bar>x\<bar> = \<lfloor>log 2 \<bar>x\<bar>\<rfloor>"
    using pos by (rule expo_floor_log)
  have "log 2 (\<bar>x\<bar> / 2) = log 2 \<bar>x\<bar> - 1"
    using pos by (simp add: log_divide)
  then have e2: "expo (\<bar>x\<bar> / 2) = \<lfloor>log 2 \<bar>x\<bar>\<rfloor> - 1"
    using pos expo_floor_log[of "\<bar>x\<bar> / 2"] by simp
  have m1: "max (expo \<bar>x\<bar>) (- 1022) = \<lfloor>log 2 \<bar>x\<bar>\<rfloor>"
    unfolding e using lo by linarith
  have m2: "max (expo (\<bar>x\<bar> / 2)) (- 1022) = \<lfloor>log 2 \<bar>x\<bar>\<rfloor> - 1"
    unfolding e2 using lo by linarith
  define v where "v = pow2 (\<lfloor>log 2 \<bar>x\<bar>\<rfloor> - 52)"
  have v: "v \<noteq> 0"
    by (simp add: v_def pow2_powr)
  have "\<lfloor>log 2 \<bar>x\<bar>\<rfloor> - 1 - 52 = \<lfloor>log 2 \<bar>x\<bar>\<rfloor> - 52 - 1"
    by simp
  then have u: "pow2 (\<lfloor>log 2 \<bar>x\<bar>\<rfloor> - 1 - 52) = v / 2"
    unfolding v_def by (simp only: pow2_pred)
  have "\<bar>x / 2\<bar> = \<bar>x\<bar> / 2" by simp
  then have "fl (x / 2) = of_int (roundEven (x / 2 / (v / 2))) * (v / 2)"
    using x unfolding fl_def Let_def by (simp only: m2 u) simp
  also have "x / 2 / (v / 2) = x / v"
    using v by simp
  also have "of_int (roundEven (x / v)) * (v / 2) = fl x / 2"
    using x unfolding fl_def Let_def m1 v_def by simp
  finally show ?thesis .
qed

text \<open>The sums of the concrete panels: \<open>0 + 150\<close> is exact, \<open>0.04 + 150\<close> is rounded
  down by \<open>1147 / 2 ^ 57\<close>.\<close>

lemma fl_150: "fl 150 = 150"
  by (simp add: fl_def expo.simps roundEven_def pow2_def Let_def)

lemma fl_panelC: "fl (5764607523034235 / 2 ^ 57 + 300 / 2) = 5279063188208353 / 2 ^ 45"
  by (simp add: fl_def expo.simps roundEven_def pow2_def Let_def)

section \<open>The panel list keeps its shape\<close>

lemma map_id_w_cong:
  "(\<And>w. id_w (f w) = id_w w) \<Longrightarrow> map id_w (map f ws) = map id_w ws"
  by (induction ws) simp_all

lemma find_id_w: "find (\<lambda>w. id_w w = k) ws = Some v \<Longrightarrow> id_w v = k"
  by (induction ws) (auto split: if_splits)

lemma unsnapWindow_update_ids:
  "map id_w (unsnapWindow_update i cur) = map id_w cur"
  unfolding unsnapWindow_update_def
  by (auto simp: Let_def intro!: map_id_w_cong split: option.splits)

lemma splitUpdates_ids:
  assumes "id_w t = tgt" and "id_w dragged = draggedId"
    and "splitUpdates sd tgt t draggedId dragged k = Some u"
  shows "id_w u = k"
  using assms by (cases sd) (auto simp: splitUpdates_def Let_def split: if_splits)

lemma snapMap_id: "id_w (snapMap vp sd w) = id_w w"
  by (cases sd) (simp_all add: snapMap_def Let_def)

lemma screenSnap_ids: "map id_w (screenSnap vp d sd cur) = map id_w cur"
  unfolding screenSnap_def by (rule map_id_w_cong) (simp add: snapMap_id)

lemma handleDrop_update_ids:
  "map id_w (handleDrop_update vp d sdo tgo cur) = map id_w cur"
proof -
  have split_case: "id_w u = id_w w"
    if "find (\<lambda>w. id_w w = d) cur = Some dragged"
      and "find (\<lambda>w. id_w w = tgt) cur = Some t"
      and "splitUpdates sd tgt t d dragged (id_w w) = Some u"
    for sd tgt t dragged u and w :: WindowData
    using splitUpdates_ids[OF find_id_w[OF that(2)] find_id_w[OF that(1)] that(3)] .
  show ?thesis
    unfolding handleDrop_update_def
    by (auto simp: Let_def screenSnap_ids split: option.splits intro: split_case)
qed

text \<open>
  Claim C10. \<^verbatim>\<open>unsnapWindow\<close>, \<^verbatim>\<open>handleDragStart\<close>, \<^verbatim>\<open>handleDrag\<close> and
  \<^verbatim>\<open>handleDrop\<close> keep the list of panel ids as it is: the same ids, as often, in the
  same order. No panel is added, removed or moved in the list.
\<close>

theorem list_shape_preserved:
  "map id_w (windows (unsnapWindow i s)) = map id_w (windows s) \<and>
   map id_w (windows (handleDragStart e i s)) = map id_w (windows s) \<and>
   map id_w (windows (handleDrag vp e i s)) = map id_w (windows s) \<and>
   map id_w (windows (handleDrop vp s)) = map id_w (windows s)"
proof (intro conjI)
  show "map id_w (windows (unsnapWindow i s)) = map id_w (windows s)"
    by (simp add: unsnapWindow_def unsnapWindow_update_ids)
  show "map id_w (windows (handleDragStart e i s)) = map id_w (windows s)"
    by (simp add: handleDragStart_def unsnapWindow_def unsnapWindow_update_ids)
  show "map id_w (windows (handleDrag vp e i s)) = map id_w (windows s)"
    by (simp add: handleDrag_def Let_def map_id_w_cong split: option.splits)
  show "map id_w (windows (handleDrop vp s)) = map id_w (windows s)"
    by (simp add: handleDrop_def handleDrop_update_ids split: option.splits)
qed

text \<open>The four operations on a drag of panel 1 over panel 2: the ids stay \<open>[1, 2]\<close>.\<close>

theorem list_shape_preserved_witness:
  "map id_w (windows (unsnapWindow 1 (dragging [panelA, panelB] (resolve viewport1200 10 10 1 [panelA, panelB])))) = [1, 2] \<and>
   map id_w (windows (handleDragStart \<lparr>clientX = 600, clientY = 410\<rparr> 1 (dragging [panelA, panelB] (resolve viewport1200 10 10 1 [panelA, panelB])))) = [1, 2] \<and>
   map id_w (windows (handleDrag viewport1200 \<lparr>clientX = 600, clientY = 410\<rparr> 1 (dragging [panelA, panelB] (resolve viewport1200 10 10 1 [panelA, panelB])))) = [1, 2] \<and>
   map id_w (windows (handleDrop viewport1200 (dragging [panelA, panelB] (resolve viewport1200 10 10 1 [panelA, panelB])))) = [1, 2]"
  using list_shape_preserved
    [of 1 "dragging [panelA, panelB] (resolve viewport1200 10 10 1 [panelA, panelB])"
        "\<lparr>clientX = 600, clientY = 410\<rparr>" viewport1200]
  by (simp add: dragging_def panelA_def panelB_def)

section \<open>Facts about the resolver\<close>

lemma windowScan_firstUnder:
  "windowScan cx cy i ws ind =
     (case firstUnder cx cy i ws of None \<Rightarrow> ind | Some w \<Rightarrow> windowEdgeIndicator cx cy w ind)"
  by (induction ws) (simp_all add: firstUnder_def)

lemma windowEdgeIndicator_far:
  "\<not> nearEdge cx cy w \<Longrightarrow> windowEdgeIndicator cx cy w ind = ind"
  by (simp add: windowEdgeIndicator_def nearEdge_def)

lemma windowEdgeIndicator_near:
  "nearEdge cx cy w \<Longrightarrow>
     show_i (windowEdgeIndicator cx cy w ind) \<and>
     target (windowEdgeIndicator cx cy w ind) = Some (id_w w)"
  by (auto simp: windowEdgeIndicator_def nearEdge_def)

lemma resolve_under:
  "firstUnder cx cy i ws = Some w \<Longrightarrow> nearEdge cx cy w \<Longrightarrow>
     resolve vp cx cy i ws = windowEdgeIndicator cx cy w EMPTY_INDICATOR"
  by (simp add: resolve_def windowScan_firstUnder windowEdgeIndicator_near)

lemma resolve_screen:
  "firstUnder cx cy i ws = None \<or>
     (\<exists>w. firstUnder cx cy i ws = Some w \<and> \<not> nearEdge cx cy w) \<Longrightarrow>
     resolve vp cx cy i ws = screenEdgeIndicator vp cx cy EMPTY_INDICATOR"
  by (auto simp: resolve_def windowScan_firstUnder windowEdgeIndicator_far EMPTY_INDICATOR_def)

text \<open>
  A decision of the resolver never targets the dragged panel, and an active decision has a
  side.
\<close>

lemma resolve_decision_shape:
  "target (resolve vp cx cy i ws) \<noteq> Some i \<and>
   (show_i (resolve vp cx cy i ws) \<longrightarrow> side (resolve vp cx cy i ws) \<noteq> None)"
proof (cases "firstUnder cx cy i ws")
  case None
  then show ?thesis
    by (simp add: resolve_screen screenEdgeIndicator_def EMPTY_INDICATOR_def)
next
  case (Some w)
  then have "id_w w \<noteq> i"
    by (auto simp: firstUnder_def find_Some_iff)
  then show ?thesis
    using Some
    by (cases "nearEdge cx cy w")
       (auto simp: resolve_under resolve_screen windowEdgeIndicator_def
          screenEdgeIndicator_def EMPTY_INDICATOR_def)
qed

text \<open>The decision for panel 1 dragged to \<open>(10, 10)\<close>, inside panel 2 near its left edge.\<close>

lemma resolve_A_B:
  "resolve viewport1200 10 10 1 [panelA, panelB] =
      \<lparr>show_i = True, side = Some SnapLeft, target = Some 2,
       top_i = Num 0, left_i = Num 0, width_i = Num 150, height_i = Num 200\<rparr>"
  by (simp add: resolve_def windowEdgeIndicator_def inside_def SNAP_THRESHOLD_def
      EMPTY_INDICATOR_def panelA_def panelB_def)

text \<open>
  In every state the handlers reach from a state without a preview, an active decision
  comes with a dragged panel: each handler keeps this.
\<close>

lemma decision_needs_drag:
  assumes "show_i (snapIndicator s) \<longrightarrow> draggedWindowId s \<noteq> None"
  shows "show_i (snapIndicator (handleDragStart e i s)) \<longrightarrow> draggedWindowId (handleDragStart e i s) \<noteq> None"
    and "show_i (snapIndicator (handleDrag vp e i s)) \<longrightarrow> draggedWindowId (handleDrag vp e i s) \<noteq> None"
    and "show_i (snapIndicator (handleDrop vp s)) \<longrightarrow> draggedWindowId (handleDrop vp s) \<noteq> None"
    and "show_i (snapIndicator (closeWindow i s)) \<longrightarrow> draggedWindowId (closeWindow i s) \<noteq> None"
    and "show_i (snapIndicator (createWindow vp now col r1 r2 s)) \<longrightarrow> draggedWindowId (createWindow vp now col r1 r2 s) \<noteq> None"
  using assms
  by (auto simp: handleDragStart_def handleDrag_def handleDrop_def closeWindow_def createWindow_def
      unsnapWindow_def Let_def EMPTY_INDICATOR_def split: option.splits)

section \<open>Facts about \<^verbatim>\<open>handleDrag\<close> and \<^verbatim>\<open>handleDrop\<close>\<close>

lemma find_id_w_map:
  assumes "\<And>w. id_w (f w) = id_w w"
  shows "find (\<lambda>w. id_w w = k) (map f ws) = map_option f (find (\<lambda>w. id_w w = k) ws)"
  using assms by (induction ws) simp_all

lemma handleDrop_active:
  assumes "show_i (snapIndicator s)" and "draggedWindowId s = Some d" and "d \<noteq> 0"
  shows "handleDrop vp s =
           s\<lparr>windows := handleDrop_update vp d (side (snapIndicator s))
                           (target (snapIndicator s)) (windows s),
             draggedWindowId := None, dragStartPos := None,
             snapIndicator := EMPTY_INDICATOR\<rparr>"
  using assms by (simp add: handleDrop_def truthy_def)

lemma handleDrop_update_split:
  assumes "find (\<lambda>w. id_w w = d) cur = Some D"
    and "find (\<lambda>w. id_w w = tid) cur = Some T" and "tid \<noteq> 0"
  shows "handleDrop_update vp d (Some sd) (Some tid) cur =
           map (\<lambda>w. case splitUpdates sd tid T d D (id_w w) of None \<Rightarrow> w | Some u \<Rightarrow> u) cur"
  using assms by (simp add: handleDrop_update_def)

lemma split_find:
  assumes D: "find (\<lambda>w. id_w w = d) cur = Some D"
    and T: "find (\<lambda>w. id_w w = tid) cur = Some T"
  shows "find (\<lambda>w. id_w w = k)
           (map (\<lambda>w. case splitUpdates sd tid T d D (id_w w) of None \<Rightarrow> w | Some u \<Rightarrow> u) cur) =
         map_option (\<lambda>w. case splitUpdates sd tid T d D (id_w w) of None \<Rightarrow> w | Some u \<Rightarrow> u)
           (find (\<lambda>w. id_w w = k) cur)"
proof (rule find_id_w_map)
  fix w :: WindowData
  show "id_w (case splitUpdates sd tid T d D (id_w w) of None \<Rightarrow> w | Some u \<Rightarrow> u) = id_w w"
    using splitUpdates_ids[OF find_id_w[OF T] find_id_w[OF D]]
    by (auto split: option.splits)
qed

lemma splitUpdates_dragged:
  "splitUpdates sd tid T d D d = Some
     (case sd of
        SnapLeft \<Rightarrow> D\<lparr>isSnapped := True, parent := Some tid,
                 top_w := top_w T, left := left T, width := width T / 2, height := height T\<rparr>
      | SnapRight \<Rightarrow> D\<lparr>isSnapped := True, parent := Some tid,
                 top_w := top_w T, left := fl (left T + width T / 2), width := width T / 2, height := height T\<rparr>
      | SnapTop \<Rightarrow> D\<lparr>isSnapped := True, parent := Some tid,
                 top_w := top_w T, left := left T, width := width T, height := height T / 2\<rparr>
      | SnapBottom \<Rightarrow> D\<lparr>isSnapped := True, parent := Some tid,
                 top_w := fl (top_w T + height T / 2), left := left T, width := width T, height := height T / 2\<rparr>)"
  by (cases sd) (simp_all add: splitUpdates_def Let_def)

lemma splitUpdates_target:
  "d \<noteq> tid \<Longrightarrow> splitUpdates sd tid T d D tid = Some
     (case sd of
        SnapLeft \<Rightarrow> T\<lparr>left := fl (left T + width T / 2), width := width T / 2\<rparr>
      | SnapRight \<Rightarrow> T\<lparr>width := width T / 2\<rparr>
      | SnapTop \<Rightarrow> T\<lparr>top_w := fl (top_w T + height T / 2), height := height T / 2\<rparr>
      | SnapBottom \<Rightarrow> T\<lparr>height := height T / 2\<rparr>)"
  by (cases sd) (simp_all add: splitUpdates_def Let_def)



lemma handleDrag_active:
  assumes "draggedWindowId s = Some d" and "dragStartPos s = Some p" and "clientX e \<noteq> 0"
  shows "handleDrag vp e d s =
           s\<lparr>dragStartPos := Some \<lparr>px = clientX e, py = clientY e\<rparr>,
             windows := map (\<lambda>w. if id_w w = d
                                  then w\<lparr>left := left w + (clientX e - px p),
                                         top_w := top_w w + (clientY e - py p)\<rparr>
                                  else w) (windows s),
             snapIndicator := resolve vp (clientX e) (clientY e) d (windows s)\<rparr>"
  using assms by (simp add: handleDrag_def Let_def)

lemma screenSnap_find:
  "find (\<lambda>w. id_w w = d) (screenSnap vp d sd cur) =
     map_option (\<lambda>w. snapMap vp sd (w\<lparr>isSnapped := True, parent := None\<rparr>))
       (find (\<lambda>w. id_w w = d) cur)"
  by (induction cur) (simp_all add: screenSnap_def snapMap_id)

lemma drop_A_on_B:
  "handleDrop viewport1200
     (dragging [panelA, panelB] (resolve viewport1200 10 10 1 [panelA, panelB])) =
   idle [panelA\<lparr>isSnapped := True, parent := Some 2,
                top_w := 0, left := 0, width := 150, height := 200\<rparr>,
         panelB\<lparr>left := 150, width := 150\<rparr>]"
  unfolding resolve_A_B
  by (simp add: handleDrop_def handleDrop_update_def splitUpdates_def truthy_def
      dragging_def idle_def panelA_def panelB_def Let_def EMPTY_INDICATOR_def fl_150)

lemma snap_A_left_half:
  "handleDrop viewport1200
     (handleDrag viewport1200 \<lparr>clientX = 5, clientY = 400\<rparr> 1
        (dragging [panelA] EMPTY_INDICATOR)) =
   idle [panelA\<lparr>top_w := 0, left := 0, width := 600, height := 800, isSnapped := True\<rparr>]"
  by (simp add: handleDrag_def handleDrop_def handleDrop_update_def screenSnap_def snapMap_def
      resolve_def screenEdgeIndicator_def SNAP_THRESHOLD_def EMPTY_INDICATOR_def truthy_def
      dragging_def idle_def panelA_def viewport1200_def Let_def)

lemma handleDrop_split_windows:
  assumes "show_i (snapIndicator s)"
    and "side (snapIndicator s) = Some sd"
    and "target (snapIndicator s) = Some tid" and "tid \<noteq> 0"
    and "draggedWindowId s = Some d" and "d \<noteq> 0"
    and "find (\<lambda>w. id_w w = d) (windows s) = Some D"
    and "find (\<lambda>w. id_w w = tid) (windows s) = Some T"
  shows "windows (handleDrop vp s) =
           map (\<lambda>w. case splitUpdates sd tid T d D (id_w w) of None \<Rightarrow> w | Some u \<Rightarrow> u)
             (windows s)"
  using assms by (simp add: handleDrop_active handleDrop_update_split)

text \<open>
  What \<^verbatim>\<open>unsnapWindow\<close> does to the sibling of a snapped panel: both extents of the
  detaching panel are added to the sibling's, and its position stays.
\<close>

lemma unsnapWindow_update_sibling:
  assumes win: "find (\<lambda>w. id_w w = i) cur = Some win"
    and snapped: "isSnapped win" "parent win = Some p" "p \<noteq> 0"
    and sib: "find (\<lambda>w. id_w w = p) cur = Some sibling"
  shows "find (\<lambda>w. id_w w = p) (unsnapWindow_update i cur) =
           Some (sibling\<lparr>width := width sibling + width win,
                         height := height sibling + height win,
                         isSnapped := False, parent := None\<rparr>)"
proof -
  let ?upd = "sibling\<lparr>width := width sibling + width win,
                         height := height sibling + height win,
                         isSnapped := False, parent := None\<rparr>"
  let ?g = "\<lambda>w. if id_w w = id_w sibling then ?upd
                 else if id_w w = i then w\<lparr>isSnapped := False, parent := None\<rparr> else w"
  have "unsnapWindow_update i cur = map ?g cur"
    using win snapped sib by (simp add: unsnapWindow_update_def truthy_def Let_def)
  moreover have "find (\<lambda>w. id_w w = p) (map ?g cur) = map_option ?g (find (\<lambda>w. id_w w = p) cur)"
    by (rule find_id_w_map) simp
  ultimately show ?thesis
    by (simp add: sib)
qed

text \<open>
  The target of a split after the dragged panel is unsnapped at once: the extent along
  the split axis is back, the other extent is doubled, and after a left or top split the
  target stays where the split moved it.
\<close>

lemma unsnap_after_split:
  assumes "show_i (snapIndicator s)"
    and "side (snapIndicator s) = Some sd"
    and "target (snapIndicator s) = Some tid" and "tid \<noteq> 0"
    and "draggedWindowId s = Some d" and "d \<noteq> 0" and "d \<noteq> tid"
    and D: "find (\<lambda>w. id_w w = d) (windows s) = Some D"
    and T: "find (\<lambda>w. id_w w = tid) (windows s) = Some T"
  shows "find (\<lambda>w. id_w w = tid) (windows (unsnapWindow d (handleDrop vp s))) =
           Some (case sd of
                   SnapLeft \<Rightarrow> T\<lparr>left := fl (left T + width T / 2), width := width T,
                                 height := 2 * height T, isSnapped := False, parent := None\<rparr>
                 | SnapRight \<Rightarrow> T\<lparr>width := width T,
                                 height := 2 * height T, isSnapped := False, parent := None\<rparr>
                 | SnapTop \<Rightarrow> T\<lparr>top_w := fl (top_w T + height T / 2), width := 2 * width T,
                                 height := height T, isSnapped := False, parent := None\<rparr>
                 | SnapBottom \<Rightarrow> T\<lparr>width := 2 * width T,
                                 height := height T, isSnapped := False, parent := None\<rparr>)"
proof -
  let ?f = "\<lambda>w. case splitUpdates sd tid T d D (id_w w) of None \<Rightarrow> w | Some u \<Rightarrow> u"
  let ?ws = "windows (handleDrop vp s)"
  have ws: "?ws = map ?f (windows s)"
    using assms by (simp add: handleDrop_split_windows)
  have idD: "id_w D = d" and idT: "id_w T = tid"
    using find_id_w[OF D] find_id_w[OF T] by simp_all
  have fD: "find (\<lambda>w. id_w w = d) ?ws = Some (?f D)"
    by (simp add: ws split_find[OF D T] D)
  have fT: "find (\<lambda>w. id_w w = tid) ?ws = Some (?f T)"
    by (simp add: ws split_find[OF D T] T)
  have flags: "isSnapped (?f D)" "parent (?f D) = Some tid"
    by (cases sd; simp add: idD splitUpdates_dragged)+
  have "find (\<lambda>w. id_w w = tid) (unsnapWindow_update d ?ws) =
          Some ((?f T)\<lparr>width := width (?f T) + width (?f D),
                        height := height (?f T) + height (?f D),
                        isSnapped := False, parent := None\<rparr>)"
    using unsnapWindow_update_sibling[OF fD flags \<open>tid \<noteq> 0\<close> fT] .
  also have "(?f T)\<lparr>width := width (?f T) + width (?f D),
                        height := height (?f T) + height (?f D),
                        isSnapped := False, parent := None\<rparr> =
             (case sd of
                   SnapLeft \<Rightarrow> T\<lparr>left := fl (left T + width T / 2), width := width T,
                                 height := 2 * height T, isSnapped := False, parent := None\<rparr>
                 | SnapRight \<Rightarrow> T\<lparr>width := width T,
                                 height := 2 * height T, isSnapped := False, parent := None\<rparr>
                 | SnapTop \<Rightarrow> T\<lparr>top_w := fl (top_w T + height T / 2), width := 2 * width T,
                                 height := height T, isSnapped := False, parent := None\<rparr>
                 | SnapBottom \<Rightarrow> T\<lparr>width := 2 * width T,
                                 height := height T, isSnapped := False, parent := None\<rparr>)"
    using \<open>d \<noteq> tid\<close>
    by (cases sd) (simp_all add: idD idT splitUpdates_dragged splitUpdates_target)
  finally show ?thesis
    by (simp add: unsnapWindow_def)
qed

section \<open>Splitting a panel\<close>




section \<open>Dropping on a panel that is gone\<close>

text \<open>
  Claim C9 (dangling target). A drag of panel \<open>d\<close> is in progress and the active decision
  targets an id \<open>tid\<close> that no panel of the list has (ids are not \<open>0\<close>, see C2). Then
  \<^verbatim>\<open>handleDrop\<close> leaves the panel list as it is, and clears the dragged id, the recorded
  pointer position and the preview.
\<close>

theorem drop_dangling_target:
  assumes "show_i (snapIndicator s)"
    and "draggedWindowId s = Some d" and "d \<noteq> 0"
    and "target (snapIndicator s) = Some tid" and "tid \<noteq> 0"
    and "find (\<lambda>w. id_w w = tid) (windows s) = None"
  shows "windows (handleDrop vp s) = windows s \<and>
         draggedWindowId (handleDrop vp s) = None \<and>
         dragStartPos (handleDrop vp s) = None \<and>
         snapIndicator (handleDrop vp s) = EMPTY_INDICATOR"
  using assms
  by (simp add: handleDrop_active handleDrop_update_def split: option.splits)

text \<open>Panel 2 was closed while panel 1 was dragged over it.\<close>

theorem drop_dangling_target_witness:
  "show_i (resolve viewport1200 10 10 1 [panelA, panelB]) \<and>
   target (resolve viewport1200 10 10 1 [panelA, panelB]) = Some 2 \<and>
   find (\<lambda>w. id_w w = 2) [panelA] = None \<and>
   handleDrop viewport1200 (dragging [panelA] (resolve viewport1200 10 10 1 [panelA, panelB])) =
     idle [panelA]"
proof -
  let ?r = "resolve viewport1200 10 10 1 [panelA, panelB]"
  let ?s = "dragging [panelA] ?r"
  have h1: "show_i (snapIndicator ?s)" and h2: "draggedWindowId ?s = Some 1"
    and h3: "target (snapIndicator ?s) = Some 2"
    by (simp_all add: resolve_A_B dragging_def)
  have fb: "find (\<lambda>w. id_w w = 2) (windows ?s) = None"
    by (simp add: dragging_def panelA_def)
  have "windows (handleDrop viewport1200 ?s) = windows ?s \<and>
         draggedWindowId (handleDrop viewport1200 ?s) = None \<and>
         dragStartPos (handleDrop viewport1200 ?s) = None \<and>
         snapIndicator (handleDrop viewport1200 ?s) = EMPTY_INDICATOR"
    using drop_dangling_target[OF h1 h2 _ h3 _ fb, of viewport1200] by simp
  then have "handleDrop viewport1200 ?s = idle [panelA]"
    by (simp add: idle_def dragging_def AppState.equality)
  moreover have "windows ?s = [panelA]" "snapIndicator ?s = ?r"
    by (simp_all add: dragging_def)
  ultimately show ?thesis
    using h1 h3 fb by simp
qed

section \<open>Edge precedence\<close>

text \<open>
  Claim C6 (edge precedence). Let \<open>w\<close> be the first panel, other than the dragged one,
  that contains the pointer. The side of the decision is the first match in the order
  left, right, top, bottom of the four threshold tests on \<open>w\<close>, whatever the later
  tests say, and the decision targets \<open>w\<close>; the threshold is 30.
\<close>

theorem resolve_edge_precedence:
  assumes "firstUnder cx cy i ws = Some w"
  shows "(cx < left w + SNAP_THRESHOLD \<longrightarrow>
            side (resolve vp cx cy i ws) = Some SnapLeft \<and>
            target (resolve vp cx cy i ws) = Some (id_w w)) \<and>
         (\<not> cx < left w + SNAP_THRESHOLD \<and> cx > left w + width w - SNAP_THRESHOLD \<longrightarrow>
            side (resolve vp cx cy i ws) = Some SnapRight \<and>
            target (resolve vp cx cy i ws) = Some (id_w w)) \<and>
         (\<not> cx < left w + SNAP_THRESHOLD \<and> \<not> cx > left w + width w - SNAP_THRESHOLD \<and>
            cy < top_w w + SNAP_THRESHOLD \<longrightarrow>
            side (resolve vp cx cy i ws) = Some SnapTop \<and>
            target (resolve vp cx cy i ws) = Some (id_w w)) \<and>
         (\<not> cx < left w + SNAP_THRESHOLD \<and> \<not> cx > left w + width w - SNAP_THRESHOLD \<and>
            \<not> cy < top_w w + SNAP_THRESHOLD \<and> cy > top_w w + height w - SNAP_THRESHOLD \<longrightarrow>
            side (resolve vp cx cy i ws) = Some SnapBottom \<and>
            target (resolve vp cx cy i ws) = Some (id_w w)) \<and>
         SNAP_THRESHOLD = 30"
proof -
  have "nearEdge cx cy w \<Longrightarrow>
          resolve vp cx cy i ws = windowEdgeIndicator cx cy w EMPTY_INDICATOR"
    using assms by (rule resolve_under)
  then show ?thesis
    by (auto simp: nearEdge_def windowEdgeIndicator_def SNAP_THRESHOLD_def)
qed

text \<open>
  The panel \<open>{top: 0, left: 0, width: 300, height: 200}\<close> and the pointer \<open>(10, 10)\<close>,
  within the threshold of its left and of its top edge: the side is left.
\<close>

theorem resolve_edge_precedence_witness:
  "firstUnder 10 10 1 [panelA, panelB] = Some panelB \<and>
   top_w panelB = 0 \<and> left panelB = 0 \<and> width panelB = 300 \<and> height panelB = 200 \<and>
   (10::real) < left panelB + SNAP_THRESHOLD \<and> (10::real) < top_w panelB + SNAP_THRESHOLD \<and>
   side (resolve viewport1200 10 10 1 [panelA, panelB]) = Some SnapLeft"
proof -
  have h: "firstUnder 10 10 1 [panelA, panelB] = Some panelB"
    by (simp add: firstUnder_def inside_def panelA_def panelB_def)
  have near: "(10::real) < left panelB + SNAP_THRESHOLD" "(10::real) < top_w panelB + SNAP_THRESHOLD"
    by (simp_all add: panelB_def SNAP_THRESHOLD_def)
  show ?thesis
    using resolve_edge_precedence[OF h, of viewport1200] near h
    by (simp add: panelB_def)
qed

section \<open>When the screen edges are tested\<close>

text \<open>
  Claim C5 says that a screen-edge decision (active, no target) is only produced when no
  panel other than the dragged one contains the pointer. The code tests the screen edges
  whenever the loop over the panels left the indicator inactive
  (\<^verbatim>\<open>if (!indicator.show)\<close>), also after it stopped at a panel none of whose edges
  is near. Here panel 3 reaches over the left screen edge and contains the pointer
  \<open>(10, 200)\<close>, which is 110 from the panel's left edge and 10 from the screen's: the
  decision is active and has no target.
\<close>

theorem screen_edge_gate_counterexample:
  "id_w panelWide \<noteq> 1 \<and> inside 10 200 panelWide \<and>
   show_i (resolve viewport1200 10 200 1 [panelWide]) \<and>
   target (resolve viewport1200 10 200 1 [panelWide]) = None"
  by (simp add: resolve_def windowEdgeIndicator_def screenEdgeIndicator_def inside_def
      SNAP_THRESHOLD_def EMPTY_INDICATOR_def panelWide_def)

text \<open>
  Claim C5, amended. The screen-edge test is gated on the absence of a panel-edge match:
  when the first panel, other than the dragged one, that contains the pointer has the
  pointer within the threshold of one of its edges, the decision is active and targets
  that panel; and a screen-edge decision (active, no target) is produced only when no
  such panel contains the pointer or the first one that does has none of its edges within
  the threshold of the pointer.
\<close>

theorem screen_edge_gated_on_edge_match:
  "(\<forall>w. firstUnder cx cy i ws = Some w \<and> nearEdge cx cy w \<longrightarrow>
        show_i (resolve vp cx cy i ws) \<and> target (resolve vp cx cy i ws) = Some (id_w w)) \<and>
   (show_i (resolve vp cx cy i ws) \<and> target (resolve vp cx cy i ws) = None \<longrightarrow>
        firstUnder cx cy i ws = None \<or>
        (\<exists>w. firstUnder cx cy i ws = Some w \<and> \<not> nearEdge cx cy w))"
proof -
  have targets: "show_i (resolve vp cx cy i ws) \<and> target (resolve vp cx cy i ws) = Some (id_w w)"
    if "firstUnder cx cy i ws = Some w \<and> nearEdge cx cy w" for w
    using that by (simp add: resolve_under windowEdgeIndicator_near)
  have gate: "firstUnder cx cy i ws = None \<or>
        (\<exists>w. firstUnder cx cy i ws = Some w \<and> \<not> nearEdge cx cy w)"
    if a: "show_i (resolve vp cx cy i ws) \<and> target (resolve vp cx cy i ws) = None"
  proof (cases "firstUnder cx cy i ws")
    case None
    then show ?thesis by simp
  next
    case (Some w)
    have "\<not> nearEdge cx cy w"
    proof
      assume "nearEdge cx cy w"
      then have "target (resolve vp cx cy i ws) = Some (id_w w)"
        using Some by (simp add: resolve_under windowEdgeIndicator_near)
      with a show False by simp
    qed
    with Some show ?thesis by simp
  qed
  from targets gate show ?thesis by blast
qed

text \<open>Both parts: the pointer near the left edge of panel 2, and the pointer inside
  panel 3 far from its edges but near the left screen edge.\<close>

theorem screen_edge_gated_on_edge_match_witness:
  "firstUnder 10 10 1 [panelA, panelB] = Some panelB \<and> nearEdge 10 10 panelB \<and>
   show_i (resolve viewport1200 10 10 1 [panelA, panelB]) \<and>
   target (resolve viewport1200 10 10 1 [panelA, panelB]) = Some 2 \<and>
   show_i (resolve viewport1200 10 200 1 [panelWide]) \<and>
   target (resolve viewport1200 10 200 1 [panelWide]) = None \<and>
   firstUnder 10 200 1 [panelWide] = Some panelWide \<and> \<not> nearEdge 10 200 panelWide"
proof -
  have h: "firstUnder 10 10 1 [panelA, panelB] = Some panelB \<and> nearEdge 10 10 panelB"
    by (simp add: firstUnder_def inside_def nearEdge_def SNAP_THRESHOLD_def panelA_def panelB_def)
  have g: "show_i (resolve viewport1200 10 200 1 [panelWide]) \<and>
           target (resolve viewport1200 10 200 1 [panelWide]) = None"
    by (simp add: resolve_def windowEdgeIndicator_def screenEdgeIndicator_def inside_def
      SNAP_THRESHOLD_def EMPTY_INDICATOR_def panelWide_def)
  have f: "firstUnder 10 200 1 [panelWide] = Some panelWide"
    by (simp add: firstUnder_def inside_def panelWide_def)
  from screen_edge_gated_on_edge_match[of 10 10 1 "[panelA, panelB]" viewport1200] h
  have 1: "show_i (resolve viewport1200 10 10 1 [panelA, panelB]) \<and>
   target (resolve viewport1200 10 10 1 [panelA, panelB]) = Some 2"
    by (simp add: panelB_def)
  from screen_edge_gated_on_edge_match[of 10 200 1 "[panelWide]" viewport1200] g f
  have 2: "\<not> nearEdge 10 200 panelWide"
    by simp
  from h 1 g f 2 show ?thesis by simp
qed

section \<open>Snapping to a screen half\<close>

text \<open>
  Claim C7 (full-screen snap). The viewport is 1200 by 800, panel \<open>d\<close> is being dragged
  (its id is not \<open>0\<close>) and no other panel contains the pointer \<open>(5, 400)\<close>. Then
  \<^verbatim>\<open>handleDrag\<close> publishes an active decision with side left and no target, and the
  \<^verbatim>\<open>handleDrop\<close> that follows gives the dragged panel the geometry
  \<open>{top: 0, left: 0, width: 600, height: 800}\<close>, \<^verbatim>\<open>isSnapped = true\<close> and
  \<^verbatim>\<open>parent = null\<close>.
\<close>

theorem full_screen_snap_left:
  assumes vp: "innerWidth vp = 1200" "innerHeight vp = 800"
    and e: "clientX e = 5" "clientY e = 400"
    and drag: "draggedWindowId s = Some d" "d \<noteq> 0" "dragStartPos s = Some p"
    and free: "firstUnder 5 400 d (windows s) = None"
    and D: "find (\<lambda>w. id_w w = d) (windows s) = Some D"
  shows "show_i (snapIndicator (handleDrag vp e d s)) \<and>
         side (snapIndicator (handleDrag vp e d s)) = Some SnapLeft \<and>
         target (snapIndicator (handleDrag vp e d s)) = None \<and>
         find (\<lambda>w. id_w w = d) (windows (handleDrop vp (handleDrag vp e d s))) =
           Some (D\<lparr>top_w := 0, left := 0, width := 600, height := 800,
                   isSnapped := True, parent := None\<rparr>)"
proof -
  let ?s1 = "handleDrag vp e d s"
  let ?move = "\<lambda>w. if id_w w = d
                    then w\<lparr>left := left w + (clientX e - px p),
                           top_w := top_w w + (clientY e - py p)\<rparr>
                    else w"
  have s1: "?s1 = s\<lparr>dragStartPos := Some \<lparr>px = clientX e, py = clientY e\<rparr>,
                    windows := map ?move (windows s),
                    snapIndicator := resolve vp 5 400 d (windows s)\<rparr>"
    using handleDrag_active[OF drag(1) drag(3), of e vp] e by simp
  have r: "resolve vp 5 400 d (windows s) =
             \<lparr>show_i = True, side = Some SnapLeft, target = None,
              top_i = Num 0, left_i = Num 0, width_i = Str ''50vw'', height_i = Str ''100vh''\<rparr>"
    using free
    by (simp add: resolve_screen screenEdgeIndicator_def SNAP_THRESHOLD_def)
  have ind: "show_i (snapIndicator ?s1) \<and> side (snapIndicator ?s1) = Some SnapLeft \<and>
             target (snapIndicator ?s1) = None"
    by (simp add: s1 r)
  have moved: "find (\<lambda>w. id_w w = d) (windows ?s1) = Some (?move D)"
    by (simp add: s1 find_id_w_map D)
  have d1: "draggedWindowId ?s1 = Some d"
    by (simp add: s1 drag)
  have "windows (handleDrop vp ?s1) =
          handleDrop_update vp d (Some SnapLeft) None (windows ?s1)"
    using ind by (simp add: handleDrop_active[OF _ d1 drag(2)])
  also have "\<dots> = screenSnap vp d SnapLeft (windows ?s1)"
    by (simp add: handleDrop_update_def moved)
  finally have "windows (handleDrop vp ?s1) = screenSnap vp d SnapLeft (windows ?s1)" .
  then have "find (\<lambda>w. id_w w = d) (windows (handleDrop vp ?s1)) =
               Some (snapMap vp SnapLeft ((?move D)\<lparr>isSnapped := True, parent := None\<rparr>))"
    by (simp add: screenSnap_find moved)
  also have "snapMap vp SnapLeft ((?move D)\<lparr>isSnapped := True, parent := None\<rparr>) =
               D\<lparr>top_w := 0, left := 0, width := 600, height := 800,
                 isSnapped := True, parent := None\<rparr>"
    using find_id_w[OF D] vp by (simp add: snapMap_def Let_def)
  finally show ?thesis
    using ind by simp
qed

text \<open>Panel 1 dragged to \<open>(5, 400)\<close>, away from panel 2.\<close>

theorem full_screen_snap_left_witness:
  "firstUnder 5 400 1 [panelA, panelB] = None \<and>
   snapIndicator (handleDrag viewport1200 \<lparr>clientX = 5, clientY = 400\<rparr> 1
      (dragging [panelA, panelB] EMPTY_INDICATOR)) =
     \<lparr>show_i = True, side = Some SnapLeft, target = None,
      top_i = Num 0, left_i = Num 0, width_i = Str ''50vw'', height_i = Str ''100vh''\<rparr> \<and>
   find (\<lambda>w. id_w w = 1)
     (windows (handleDrop viewport1200
        (handleDrag viewport1200 \<lparr>clientX = 5, clientY = 400\<rparr> 1
           (dragging [panelA, panelB] EMPTY_INDICATOR)))) =
     Some \<lparr>id_w = 1, color = ''rgb(10,20,30)'', top_w = 0, left = 0,
             width = 600, height = 800, isSnapped = True, parent = None\<rparr>"
proof -
  let ?s = "dragging [panelA, panelB] EMPTY_INDICATOR"
  let ?e = "\<lparr>clientX = 5, clientY = 400\<rparr>"
  have free: "firstUnder 5 400 1 (windows ?s) = None"
    by (simp add: firstUnder_def inside_def dragging_def panelA_def panelB_def)
  have D: "find (\<lambda>w. id_w w = 1) (windows ?s) = Some panelA"
    by (simp add: dragging_def panelA_def)
  have "find (\<lambda>w. id_w w = 1) (windows (handleDrop viewport1200 (handleDrag viewport1200 ?e 1 ?s))) =
           Some (panelA\<lparr>top_w := 0, left := 0, width := 600, height := 800,
                   isSnapped := True, parent := None\<rparr>)"
    using full_screen_snap_left[of viewport1200 ?e ?s 1 "\<lparr>px = 600, py = 410\<rparr>" panelA, OF _ _ _ _ _ _ _ free D]
    by (simp add: viewport1200_def dragging_def)
  moreover have "snapIndicator (handleDrag viewport1200 ?e 1 ?s) =
     \<lparr>show_i = True, side = Some SnapLeft, target = None,
      top_i = Num 0, left_i = Num 0, width_i = Str ''50vw'', height_i = Str ''100vh''\<rparr>"
    by (simp add: handleDrag_def dragging_def resolve_def inside_def screenEdgeIndicator_def
        SNAP_THRESHOLD_def EMPTY_INDICATOR_def panelA_def panelB_def)
  moreover have "firstUnder 5 400 1 [panelA, panelB] = None"
    using free by (simp add: dragging_def)
  ultimately show ?thesis
    by (simp add: panelA_def)
qed

section \<open>Pointer events with a zero coordinate\<close>

text \<open>
  Claim C8 says that \<^verbatim>\<open>handleDrag\<close> ignores an event whose x or y coordinate is 0. The
  guard of the code is \<^verbatim>\<open>e.clientX === 0\<close> only: the event \<open>(50, 0)\<close> moves the dragged
  panel, updates the recorded pointer position and publishes a decision.
\<close>

theorem zero_y_counterexample:
  "clientY \<lparr>clientX = 50, clientY = 0\<rparr> = 0 \<and>
   windows (handleDrag viewport1200 \<lparr>clientX = 50, clientY = 0\<rparr> 1 (dragging [panelA] EMPTY_INDICATOR)) =
     [panelA\<lparr>left := -50, top_w := -10\<rparr>] \<and>
   dragStartPos (handleDrag viewport1200 \<lparr>clientX = 50, clientY = 0\<rparr> 1 (dragging [panelA] EMPTY_INDICATOR)) =
     Some \<lparr>px = 50, py = 0\<rparr> \<and>
   snapIndicator (handleDrag viewport1200 \<lparr>clientX = 50, clientY = 0\<rparr> 1 (dragging [panelA] EMPTY_INDICATOR)) =
     \<lparr>show_i = True, side = Some SnapTop, target = None,
      top_i = Num 0, left_i = Num 0, width_i = Str ''100vw'', height_i = Str ''50vh''\<rparr>"
  by (simp add: handleDrag_def dragging_def resolve_def screenEdgeIndicator_def
      SNAP_THRESHOLD_def EMPTY_INDICATOR_def panelA_def viewport1200_def)

text \<open>
  Claim C8, amended. A \<^verbatim>\<open>handleDrag\<close> event whose x coordinate is 0 is ignored: the
  whole state stays as it is, so every panel's geometry, the recorded pointer position
  and the published decision.
\<close>

theorem zero_x_ignored:
  "clientX e = 0 \<Longrightarrow> handleDrag vp e i s = s"
  by (simp add: handleDrag_def split: option.splits)

text \<open>The event \<open>(0, 300)\<close> during a drag of panel 1.\<close>

theorem zero_x_ignored_witness:
  "clientX \<lparr>clientX = 0, clientY = 300\<rparr> = 0 \<and>
   handleDrag viewport1200 \<lparr>clientX = 0, clientY = 300\<rparr> 1 (dragging [panelA] EMPTY_INDICATOR) =
     dragging [panelA] EMPTY_INDICATOR"
  using zero_x_ignored[of "\<lparr>clientX = 0, clientY = 300\<rparr>" viewport1200 1 "dragging [panelA] EMPTY_INDICATOR"]
  by simp

section \<open>Where the code does not do what is stated\<close>

text \<open>
  Claim C1 (reversibility) states that \<^verbatim>\<open>unsnapWindow\<close> of the dragged panel, right
  after a split, gives the target its geometry of before the split. The code adds both
  the width and the height of the detaching panel to the sibling's and leaves the
  sibling's \<^verbatim>\<open>left\<close> and \<^verbatim>\<open>top\<close> as they are. Panel 1 is dropped on the left
  edge of panel 2, which is \<open>{top: 0, left: 0, width: 300, height: 200}\<close>, and unsnapped
  at once: panel 2 ends as \<open>{top: 0, left: 150, width: 300, height: 400}\<close>. Lemma
  \<open>unsnap_after_split\<close> gives the target's geometry after the round trip for all four
  sides.
\<close>

theorem unsnap_after_split_geometry:
  "find (\<lambda>w. id_w w = 2) [panelA, panelB] =
     Some \<lparr>id_w = 2, color = ''rgb(40,50,60)'', top_w = 0, left = 0,
           width = 300, height = 200, isSnapped = False, parent = None\<rparr> \<and>
   find (\<lambda>w. id_w w = 2)
     (windows (unsnapWindow 1
        (handleDrop viewport1200
           (dragging [panelA, panelB] (resolve viewport1200 10 10 1 [panelA, panelB]))))) =
     Some \<lparr>id_w = 2, color = ''rgb(40,50,60)'', top_w = 0, left = 150,
           width = 300, height = 400, isSnapped = False, parent = None\<rparr>"
  unfolding drop_A_on_B
  by (simp add: unsnapWindow_def unsnapWindow_update_def truthy_def idle_def
      panelA_def panelB_def Let_def)

text \<open>The height of panel 2 after the round trip is 400, not the 200 it had.\<close>

theorem unsnap_after_split_geometry_witness:
  "map_option height
     (find (\<lambda>w. id_w w = 2)
        (windows (unsnapWindow 1
           (handleDrop viewport1200
              (dragging [panelA, panelB] (resolve viewport1200 10 10 1 [panelA, panelB])))))) =
     Some 400 \<and>
   map_option height (find (\<lambda>w. id_w w = 2) [panelA, panelB]) = Some 200"
  using unsnap_after_split_geometry by simp

text \<open>
  Claim C3 states that \<^verbatim>\<open>unsnapWindow\<close>, and \<^verbatim>\<open>handleDragStart\<close> through it, leave a
  panel that is not snapped or has no parent with \<^verbatim>\<open>isSnapped = false\<close> and
  \<^verbatim>\<open>parent = null\<close>. The guard of line 159 returns the list as it is, so a panel
  snapped to a screen half (\<^verbatim>\<open>isSnapped = true\<close>, no parent) keeps
  \<^verbatim>\<open>isSnapped = true\<close> when it is unsnapped or picked up, where the two other
  branches of \<^verbatim>\<open>unsnapWindow\<close> clear the flag. Panel 1 is snapped to the left screen
  half, then unsnapped, or picked up again.
\<close>

theorem unsnap_screen_snapped_keeps_flag:
  "map (\<lambda>w. (isSnapped w, parent w))
     (windows (handleDrop viewport1200
        (handleDrag viewport1200 \<lparr>clientX = 5, clientY = 400\<rparr> 1
           (dragging [panelA] EMPTY_INDICATOR)))) = [(True, None)] \<and>
   map (\<lambda>w. (isSnapped w, parent w))
     (windows (unsnapWindow 1
        (handleDrop viewport1200
           (handleDrag viewport1200 \<lparr>clientX = 5, clientY = 400\<rparr> 1
              (dragging [panelA] EMPTY_INDICATOR))))) = [(True, None)] \<and>
   map (\<lambda>w. (isSnapped w, parent w))
     (windows (handleDragStart \<lparr>clientX = 300, clientY = 10\<rparr> 1
        (handleDrop viewport1200
           (handleDrag viewport1200 \<lparr>clientX = 5, clientY = 400\<rparr> 1
              (dragging [panelA] EMPTY_INDICATOR))))) = [(True, None)]"
  unfolding snap_A_left_half
  by (simp add: handleDragStart_def unsnapWindow_def unsnapWindow_update_def
      truthy_def idle_def panelA_def)

text \<open>The flags of panel 1 after \<^verbatim>\<open>unsnapWindow\<close> are not \<open>(false, null)\<close>.\<close>

theorem unsnap_screen_snapped_keeps_flag_witness:
  "map (\<lambda>w. (isSnapped w, parent w))
     (windows (unsnapWindow 1
        (handleDrop viewport1200
           (handleDrag viewport1200 \<lparr>clientX = 5, clientY = 400\<rparr> 1
              (dragging [panelA] EMPTY_INDICATOR))))) \<noteq> [(False, None)]"
  using unsnap_screen_snapped_keeps_flag by simp

text \<open>
  Claim C4 states that \<^verbatim>\<open>handleDrop\<close> without an active decision, or without a dragged
  panel, leaves the panel list as it is and clears the drag state and the preview. The
  code returns at line 324, before the three lines that clear them (410 to 412): panel 1
  is being dragged, no decision is active, and after \<^verbatim>\<open>handleDrop\<close> the state is the
  same, the dragged id and the recorded pointer position included.
\<close>

theorem drop_without_decision_keeps_drag:
  "handleDrop viewport1200 (dragging [panelA] EMPTY_INDICATOR) =
     dragging [panelA] EMPTY_INDICATOR"
  by (simp add: handleDrop_def EMPTY_INDICATOR_def dragging_def)

text \<open>The dragged id is still 1 and the recorded position still \<open>(600, 410)\<close>.\<close>

theorem drop_without_decision_keeps_drag_witness:
  "draggedWindowId (handleDrop viewport1200 (dragging [panelA] EMPTY_INDICATOR)) = Some 1 \<and>
   dragStartPos (handleDrop viewport1200 (dragging [panelA] EMPTY_INDICATOR)) =
     Some \<lparr>px = 600, py = 410\<rparr>"
  using drop_without_decision_keeps_drag by (simp add: dragging_def)

end
